theory Spec2Isabelle
  imports Main
begin

section \<open>Python values of the notebook's cleansing cell\<close>

text \<open>
  The notebook \<^verbatim>\<open>notebooks/intro-to-pixie-dust.ipynb\<close> defines two functions that
  are applied to the cells of a column through a user-defined function:
  \<^verbatim>\<open>getNumericVal\<close> and \<^verbatim>\<open>deriveGender\<close>. A cell holds a Python \<^verbatim>\<open>str\<close>
  or \<^verbatim>\<open>None\<close>. A Python \<^verbatim>\<open>str\<close> is a sequence of Unicode code points, so it is
  modelled as a list of code points (natural numbers), not as a list of bytes: the
  built-in \<^verbatim>\<open>int\<close> and the regular expression class \<^verbatim>\<open>\d\<close> both look at
  code points beyond ASCII.
\<close>

type_synonym codepoint = nat
type_synonym pystr = "codepoint list"

datatype pyval = PyNone | PyStr pystr

datatype py_error = ValueError | TypeError

text \<open>An ASCII literal of the source, as a Python string.\<close>

definition of_ascii :: "string \<Rightarrow> pystr" where
  "of_ascii s = map of_char s"


section \<open>The character tables the built-ins consult\<close>

text \<open>
  The notebook's kernel is Python 3.6 (its metadata names 3.6.8), whose Unicode
  database is version 9.0.0. The tables below are the ones CPython 3.6 consults.

  \<^verbatim>\<open>Py_ISSPACE\<close> is the ASCII-only table of \<^verbatim>\<open>pyctype.c\<close>: tab, line feed,
  vertical tab, form feed, carriage return and space.
\<close>

definition Py_ISSPACE :: "codepoint \<Rightarrow> bool" where
  "Py_ISSPACE c = (c = 9 \<or> c = 10 \<or> c = 11 \<or> c = 12 \<or> c = 13 \<or> c = 32)"

text \<open>
  \<^verbatim>\<open>Py_UNICODE_ISSPACE\<close>: the characters of bidirectional type WS, B or S, or of
  category Zs (what \<^verbatim>\<open>str.isspace\<close> accepts).
\<close>

definition Py_UNICODE_ISSPACE :: "codepoint \<Rightarrow> bool" where
  "Py_UNICODE_ISSPACE ch =
     ((9 \<le> ch \<and> ch \<le> 13) \<or> (28 \<le> ch \<and> ch \<le> 32) \<or> ch = 133 \<or> ch = 160
      \<or> ch = 5760 \<or> (8192 \<le> ch \<and> ch \<le> 8202) \<or> ch = 8232 \<or> ch = 8233
      \<or> ch = 8239 \<or> ch = 8287 \<or> ch = 12288)"

text \<open>
  The decimal digits (category Nd) of Unicode 9.0.0 come in runs of ten consecutive
  code points with the values 0 to 9; this is the list of the code points of the
  zeros, 58 runs in all.
\<close>

definition decimal_zeros :: "codepoint list" where
  "decimal_zeros =
     [48, 1632, 1776, 1984, 2406, 2534, 2662, 2790, 2918, 3046, 3174, 3302, 3430,
      3558, 3664, 3792, 3872, 4160, 4240, 6112, 6160, 6470, 6608, 6784, 6800, 6992,
      7088, 7232, 7248, 42528, 43216, 43264, 43472, 43504, 43600, 44016, 65296,
      66720, 69734, 69872, 69942, 70096, 70384, 70736, 70864, 71248, 71360, 71472,
      71904, 72784, 92768, 93008, 120782, 120792, 120802, 120812, 120822, 125264]"

text \<open>
  \<^verbatim>\<open>Py_UNICODE_TODECIMAL\<close> gives the decimal value of a digit and -1 (here
  \<open>None\<close>) for any other character; \<^verbatim>\<open>Py_UNICODE_ISDECIMAL\<close> is defined from it.
\<close>

definition Py_UNICODE_TODECIMAL :: "codepoint \<Rightarrow> nat option" where
  "Py_UNICODE_TODECIMAL ch =
     (case find (\<lambda>z. z \<le> ch \<and> ch < z + 10) decimal_zeros of
        None \<Rightarrow> None
      | Some z \<Rightarrow> Some (ch - z))"

definition Py_UNICODE_ISDECIMAL :: "codepoint \<Rightarrow> bool" where
  "Py_UNICODE_ISDECIMAL ch = (Py_UNICODE_TODECIMAL ch \<noteq> None)"

text \<open>
  \<^verbatim>\<open>_PyLong_DigitValue\<close>: the value of an ASCII character as a digit in bases up
  to 36, and 37 for a character that is no digit in any base.
\<close>

definition PyLong_DigitValue :: "codepoint \<Rightarrow> nat" where
  "PyLong_DigitValue c =
     (if 48 \<le> c \<and> c \<le> 57 then c - 48
      else if 97 \<le> c \<and> c \<le> 122 then c - 87
      else if 65 \<le> c \<and> c \<le> 90 then c - 55
      else 37)"


section \<open>The built-in \<^verbatim>\<open>int\<close> on a string\<close>

text \<open>
  \<^verbatim>\<open>int(s)\<close> on a \<^verbatim>\<open>str\<close> is \<^verbatim>\<open>PyLong_FromUnicodeObject(s, 10)\<close>. It first
  rewrites the string to ASCII: an ASCII string is taken as it is; otherwise every
  character below 127 is kept, a Unicode space becomes a blank, a Unicode decimal
  digit becomes the ASCII digit of its value, and at the first other character the
  buffer gets a question mark and ends.
\<close>

fun transform_loop :: "pystr \<Rightarrow> pystr" where
  "transform_loop [] = []"
| "transform_loop (ch # rest) =
     (if ch < 127 then ch # transform_loop rest
      else if Py_UNICODE_ISSPACE ch then 32 # transform_loop rest
      else (case Py_UNICODE_TODECIMAL ch of
              None \<Rightarrow> [63]
            | Some decimal \<Rightarrow> (48 + decimal) # transform_loop rest))"

definition PyUnicode_IS_ASCII :: "pystr \<Rightarrow> bool" where
  "PyUnicode_IS_ASCII u = list_all (\<lambda>ch. ch < 128) u"

definition TransformDecimalAndSpaceToASCII :: "pystr \<Rightarrow> pystr" where
  "TransformDecimalAndSpaceToASCII u =
     (if PyUnicode_IS_ASCII u then u else transform_loop u)"

text \<open>
  \<^verbatim>\<open>PyLong_FromString(str, &end, 10)\<close> walks the ASCII buffer, a C string. The scan
  of the numeric run accepts decimal digits and single underscores between them
  (\<open>prev\<close> is the character before, 0 at the start); the value is accumulated over
  the digits of the run. \<open>None\<close> is the jump to \<^verbatim>\<open>onError\<close>; otherwise the result
  is the value with what is left of the buffer after the run.
\<close>

fun scan_numeric :: "codepoint \<Rightarrow> int \<Rightarrow> pystr \<Rightarrow> (int \<times> pystr) option" where
  "scan_numeric prev z [] = (if prev = 95 then None else Some (z, []))"
| "scan_numeric prev z (c # cs) =
     (if c = 95 then (if prev = 95 then None else scan_numeric c z cs)
      else if PyLong_DigitValue c < 10
        then scan_numeric c (10 * z + int (PyLong_DigitValue c)) cs
      else if prev = 95 then None
      else Some (z, c # cs))"

text \<open>
  The whole of \<^verbatim>\<open>PyLong_FromString\<close> in base 10: leading blanks, one optional
  sign, no leading underscore, the numeric run (which must not be empty), trailing
  blanks, and then the end of the C string, which is the end of the buffer or a
  NUL character in it. The result carries the rest of the buffer at \<^verbatim>\<open>end\<close>.
\<close>

definition PyLong_FromString :: "pystr \<Rightarrow> (int \<times> pystr) option" where
  "PyLong_FromString buffer =
     (let str = dropWhile Py_ISSPACE buffer;
          sign = (case str of [] \<Rightarrow> 1 | c # _ \<Rightarrow> if c = 45 then - 1 else (1::int));
          str = (case str of [] \<Rightarrow> str | c # cs \<Rightarrow> if c = 43 \<or> c = 45 then cs else str)
      in case str of
           [] \<Rightarrow> None
         | c # _ \<Rightarrow>
             if c = 95 then None
             else (case scan_numeric 0 0 str of
                     None \<Rightarrow> None
                   | Some (z, rest) \<Rightarrow>
                       if rest = str then None
                       else (case dropWhile Py_ISSPACE rest of
                               [] \<Rightarrow> Some (sign * z, [])
                             | e # es \<Rightarrow> if e = 0 then Some (sign * z, e # es) else None)))"

text \<open>
  \<^verbatim>\<open>PyLong_FromUnicodeObject\<close> accepts the result only when the parse ended at
  the end of the buffer (a string with a NUL character in it is refused); every
  failure is a \<^verbatim>\<open>ValueError\<close>.
\<close>

definition PyLong_FromUnicodeObject :: "pystr \<Rightarrow> py_error + int" where
  "PyLong_FromUnicodeObject u =
     (case PyLong_FromString (TransformDecimalAndSpaceToASCII u) of
        None \<Rightarrow> Inl ValueError
      | Some (result, end) \<Rightarrow> if end = [] then Inr result else Inl ValueError)"

text \<open>\<^verbatim>\<open>int(None)\<close> raises \<^verbatim>\<open>TypeError\<close>.\<close>

fun py_int :: "pyval \<Rightarrow> py_error + int" where
  "py_int PyNone = Inl TypeError"
| "py_int (PyStr u) = PyLong_FromUnicodeObject u"


section \<open>The regular expression\<close>

text \<open>
  The pattern of the source is \<^verbatim>\<open>'^age\-(\d+)$'\<close>. Parsed, it is the sequence:
  at the beginning; the literals a, g, e and -; group 1, a greedy repetition, one
  or more times, of the category of digits; at the end. The operations below are
  the ones this pattern uses.
\<close>

datatype sre_op =
    AT_BEGINNING
  | AT_END
  | LITERAL codepoint
  | SUBPATTERN_MAX_REPEAT_DIGIT

definition age_pattern :: "sre_op list" where
  "age_pattern =
     [AT_BEGINNING, LITERAL 97, LITERAL 103, LITERAL 101, LITERAL 45,
      SUBPATTERN_MAX_REPEAT_DIGIT, AT_END]"

text \<open>The first alternative that matches, in the order tried.\<close>

fun first_match :: "'a option list \<Rightarrow> 'a option" where
  "first_match [] = None"
| "first_match (None # rs) = first_match rs"
| "first_match (Some r # rs) = Some r"

text \<open>
  The backtracking matcher, at position \<open>pos\<close> with \<open>rest\<close> of the string left and
  \<open>g\<close> the content of group 1 so far (\<open>PyNone\<close> while the group has not taken
  part). Without the MULTILINE flag, \<^verbatim>\<open>^\<close> matches at position 0 only and
  \<^verbatim>\<open>$\<close> matches at the end of the string and just before a line feed that is the
  last character. In a \<^verbatim>\<open>str\<close> pattern without the ASCII flag, \<^verbatim>\<open>\d\<close> is
  \<^verbatim>\<open>Py_UNICODE_ISDECIMAL\<close>. The greedy repetition takes the longest run of
  digits, then gives characters back one at a time, down to one, until the rest of
  the pattern matches. The result is the content of group 1 of the match.
\<close>

fun sre_match :: "sre_op list \<Rightarrow> nat \<Rightarrow> pystr \<Rightarrow> pyval \<Rightarrow> pyval option" where
  "sre_match [] pos rest g = Some g"
| "sre_match (AT_BEGINNING # ops) pos rest g =
     (if pos = 0 then sre_match ops pos rest g else None)"
| "sre_match (AT_END # ops) pos rest g =
     (if rest = [] \<or> rest = [10] then sre_match ops pos rest g else None)"
| "sre_match (LITERAL c # ops) pos rest g =
     (case rest of
        [] \<Rightarrow> None
      | x # xs \<Rightarrow> if x = c then sre_match ops (pos + 1) xs g else None)"
| "sre_match (SUBPATTERN_MAX_REPEAT_DIGIT # ops) pos rest g =
     first_match
       (map (\<lambda>k. sre_match ops (pos + k) (drop k rest) (PyStr (take k rest)))
            (rev [1 ..< Suc (length (takeWhile Py_UNICODE_ISDECIMAL rest))]))"

text \<open>
  \<^verbatim>\<open>re.match(pattern, string)\<close>: a match object (here: its group 1) or
  \<^verbatim>\<open>None\<close>; \<^verbatim>\<open>TypeError\<close> when the second argument is not a string.
\<close>

fun re_match :: "sre_op list \<Rightarrow> pyval \<Rightarrow> py_error + pyval option" where
  "re_match p PyNone = Inl TypeError"
| "re_match p (PyStr s) = Inr (sre_match p 0 s PyNone)"


section \<open>The two functions of the notebook\<close>

text \<open>
  \<^verbatim>\<open>
  def getNumericVal(col):
      try:
        return int(col)
      except ValueError:
        # age-33
        match = re.match('^age\-(\d+)$', col)
        if match:
          try:
            return int(match.group(1))
          except ValueError:
            return None
        return None
  \<close>
  Both handlers catch \<^verbatim>\<open>ValueError\<close> only; any other exception leaves the
  function. The result is \<open>Inr (Some n)\<close> for the integer n, \<open>Inr None\<close> for
  \<^verbatim>\<open>None\<close>, and \<open>Inl e\<close> when the exception e escapes.
\<close>

definition getNumericVal :: "pyval \<Rightarrow> py_error + int option" where
  "getNumericVal col =
     (case py_int col of
        Inr n \<Rightarrow> Inr (Some n)
      | Inl e \<Rightarrow>
          if e = ValueError then
            (case re_match age_pattern col of
               Inl e' \<Rightarrow> Inl e'
             | Inr None \<Rightarrow> Inr None
             | Inr (Some group1) \<Rightarrow>
                 (case py_int group1 of
                    Inr n \<Rightarrow> Inr (Some n)
                  | Inl e' \<Rightarrow> if e' = ValueError then Inr None else Inl e'))
          else Inl e)"

text \<open>
  \<^verbatim>\<open>
  def deriveGender(col):
      if col in ['Mr.', 'Master.']:
          return 'male'
      elif col in ['Mrs.', 'Miss.']:
          return 'female'
      else:
          return 'unknown';
  \<close>
  Membership in a list compares with \<^verbatim>\<open>==\<close>, which is defined for every value,
  \<^verbatim>\<open>None\<close> too.
\<close>

definition deriveGender :: "pyval \<Rightarrow> pystr" where
  "deriveGender col =
     (if col \<in> set [PyStr (of_ascii ''Mr.''), PyStr (of_ascii ''Master.'')]
        then of_ascii ''male''
      else if col \<in> set [PyStr (of_ascii ''Mrs.''), PyStr (of_ascii ''Miss.'')]
        then of_ascii ''female''
      else of_ascii ''unknown'')"


section \<open>Notions the properties are stated with\<close>

text \<open>
  The number that a string of decimal digits denotes, most significant digit
  first; a character that is no decimal digit counts as 0.
\<close>

definition digit_value :: "codepoint \<Rightarrow> nat" where
  "digit_value d = (case Py_UNICODE_TODECIMAL d of None \<Rightarrow> 0 | Some v \<Rightarrow> v)"

definition digits_to_int :: "pystr \<Rightarrow> int" where
  "digits_to_int ds = foldl (\<lambda>z d. 10 * z + int (digit_value d)) 0 ds"

text \<open>
  A string begins with a minus sign after the blanks that \<^verbatim>\<open>int\<close> skips: below
  127 these are the six characters of \<^verbatim>\<open>Py_ISSPACE\<close>, from 127 on the Unicode
  spaces.
\<close>

definition int_blank :: "codepoint \<Rightarrow> bool" where
  "int_blank c = (if c < 127 then Py_ISSPACE c else Py_UNICODE_ISSPACE c)"

definition leading_minus :: "pystr \<Rightarrow> bool" where
  "leading_minus s = (case dropWhile int_blank s of [] \<Rightarrow> False | c # _ \<Rightarrow> c = 45)"

text \<open>The closed set of gender values: male, female and unknown.\<close>

definition gender_tokens :: "pystr set" where
  "gender_tokens = {of_ascii ''male'', of_ascii ''female'', of_ascii ''unknown''}"


section \<open>Facts about the character tables\<close>

lemma todecimal_less_10: "Py_UNICODE_TODECIMAL ch = Some d \<Longrightarrow> d < 10"
  unfolding Py_UNICODE_TODECIMAL_def
  by (auto split: option.splits simp: find_Some_iff)

lemma todecimal_ascii:
  "ch < 128 \<Longrightarrow>
   Py_UNICODE_TODECIMAL ch = (if 48 \<le> ch \<and> ch \<le> 57 then Some (ch - 48) else None)"
  by (simp add: Py_UNICODE_TODECIMAL_def decimal_zeros_def)

lemma todecimal_space:
  assumes "127 \<le> ch" and "Py_UNICODE_ISSPACE ch"
  shows "Py_UNICODE_TODECIMAL ch = None"
proof -
  from assms consider "ch = 133" | "ch = 160" | "ch = 5760" | "8192 \<le> ch \<and> ch \<le> 8202"
    | "ch = 8232" | "ch = 8233" | "ch = 8239" | "ch = 8287" | "ch = 12288"
    unfolding Py_UNICODE_ISSPACE_def by linarith
  then show ?thesis
    by cases (simp_all add: Py_UNICODE_TODECIMAL_def decimal_zeros_def)
qed

lemma not_decimal_newline: "\<not> Py_UNICODE_ISDECIMAL 10"
  by (simp add: Py_UNICODE_ISDECIMAL_def Py_UNICODE_TODECIMAL_def decimal_zeros_def)


section \<open>What \<^verbatim>\<open>int\<close> does on digits, signs and letters\<close>

lemma isdecimal_ascii: "Py_UNICODE_ISDECIMAL d \<Longrightarrow> d < 128 \<Longrightarrow> 48 \<le> d \<and> d \<le> 57"
  by (simp add: Py_UNICODE_ISDECIMAL_def todecimal_ascii split: if_splits)

lemma isdecimal_digit_value:
  "Py_UNICODE_ISDECIMAL d \<Longrightarrow> Py_UNICODE_TODECIMAL d = Some (digit_value d)"
  by (auto simp: Py_UNICODE_ISDECIMAL_def digit_value_def)

lemma digit_value_less_10: "digit_value d < 10"
  by (auto simp: digit_value_def dest: todecimal_less_10 split: option.splits)

lemma digit_value_ascii: "Py_UNICODE_ISDECIMAL d \<Longrightarrow> d < 128 \<Longrightarrow> 48 + digit_value d = d"
  by (simp add: Py_UNICODE_ISDECIMAL_def digit_value_def todecimal_ascii split: if_splits)

text \<open>The ASCII buffer of a string of decimal digits holds the ASCII digits of their values.\<close>

lemma transform_loop_digits:
  "list_all Py_UNICODE_ISDECIMAL ds \<Longrightarrow>
   transform_loop ds = map (\<lambda>d. 48 + digit_value d) ds"
proof (induction ds)
  case Nil
  then show ?case by simp
next
  case (Cons d ds)
  then have dec: "Py_UNICODE_ISDECIMAL d" and rest: "list_all Py_UNICODE_ISDECIMAL ds"
    by simp_all
  show ?case
  proof (cases "d < 127")
    case True
    with dec have "48 + digit_value d = d" by (simp add: digit_value_ascii)
    with True Cons.IH [OF rest] show ?thesis by simp
  next
    case False
    with dec have "\<not> Py_UNICODE_ISSPACE d"
      using todecimal_space [of d] by (auto simp: Py_UNICODE_ISDECIMAL_def)
    with False dec Cons.IH [OF rest] show ?thesis
      by (simp add: isdecimal_digit_value)
  qed
qed

lemma transform_digits:
  assumes "list_all Py_UNICODE_ISDECIMAL ds"
  shows "TransformDecimalAndSpaceToASCII ds = map (\<lambda>d. 48 + digit_value d) ds"
proof (cases "PyUnicode_IS_ASCII ds")
  case True
  with assms have "map (\<lambda>d. 48 + digit_value d) ds = ds"
    by (simp add: PyUnicode_IS_ASCII_def list_all_iff map_idI digit_value_ascii)
  with True show ?thesis by (simp add: TransformDecimalAndSpaceToASCII_def)
next
  case False
  with assms show ?thesis
    by (simp add: TransformDecimalAndSpaceToASCII_def transform_loop_digits)
qed

lemma transform_Cons_ascii:
  "c < 127 \<Longrightarrow> TransformDecimalAndSpaceToASCII (c # u) = c # TransformDecimalAndSpaceToASCII u"
  by (simp add: TransformDecimalAndSpaceToASCII_def PyUnicode_IS_ASCII_def)

lemma scan_numeric_digits:
  "prev \<noteq> 95 \<or> ds \<noteq> [] \<Longrightarrow>
   scan_numeric prev z (map (\<lambda>d. 48 + digit_value d) ds)
     = Some (foldl (\<lambda>z d. 10 * z + int (digit_value d)) z ds, [])"
proof (induction ds arbitrary: prev z)
  case Nil
  then show ?case by simp
next
  case (Cons d ds)
  have "digit_value d < 10" by (rule digit_value_less_10)
  then have dv: "PyLong_DigitValue (48 + digit_value d) = digit_value d"
    and ne: "48 + digit_value d \<noteq> 95"
    by (simp_all add: PyLong_DigitValue_def)
  have "scan_numeric (48 + digit_value d) (10 * z + int (digit_value d))
          (map (\<lambda>d. 48 + digit_value d) ds)
        = Some (foldl (\<lambda>z d. 10 * z + int (digit_value d)) (10 * z + int (digit_value d)) ds, [])"
    using ne by (intro Cons.IH) simp
  with dv ne \<open>digit_value d < 10\<close> show ?case by simp
qed

lemma FromString_digits:
  assumes "ds \<noteq> []"
  shows "PyLong_FromString (map (\<lambda>d. 48 + digit_value d) ds) = Some (digits_to_int ds, [])"
proof -
  obtain d ds' where ds: "ds = d # ds'" using assms by (cases ds) auto
  have lt: "digit_value d < 10" by (rule digit_value_less_10)
  have "scan_numeric 0 0 (map (\<lambda>d. 48 + digit_value d) ds) = Some (digits_to_int ds, [])"
    unfolding digits_to_int_def by (rule scan_numeric_digits) simp
  then show ?thesis using lt
    by (simp add: PyLong_FromString_def ds Py_ISSPACE_def Let_def del: scan_numeric.simps)
qed

lemma int_digits:
  assumes "list_all Py_UNICODE_ISDECIMAL ds" and "ds \<noteq> []"
  shows "PyLong_FromUnicodeObject ds = Inr (digits_to_int ds)"
  using assms by (simp add: PyLong_FromUnicodeObject_def transform_digits FromString_digits)

lemma FromString_plus_digits:
  assumes "ds \<noteq> []"
  shows "PyLong_FromString (43 # map (\<lambda>d. 48 + digit_value d) ds) = Some (digits_to_int ds, [])"
proof -
  obtain d ds' where ds: "ds = d # ds'" using assms by (cases ds) auto
  have lt: "digit_value d < 10" by (rule digit_value_less_10)
  have "scan_numeric 0 0 (map (\<lambda>d. 48 + digit_value d) ds) = Some (digits_to_int ds, [])"
    unfolding digits_to_int_def by (rule scan_numeric_digits) simp
  then show ?thesis using lt
    by (simp add: PyLong_FromString_def ds Py_ISSPACE_def Let_def del: scan_numeric.simps)
qed

lemma int_plus_digits:
  assumes "list_all Py_UNICODE_ISDECIMAL ds" and "ds \<noteq> []"
  shows "PyLong_FromUnicodeObject (43 # ds) = Inr (digits_to_int ds)"
  using assms
  by (simp add: PyLong_FromUnicodeObject_def transform_Cons_ascii transform_digits
      FromString_plus_digits)

lemma int_letter_a: "PyLong_FromUnicodeObject (97 # u) = Inl ValueError"
  by (simp add: PyLong_FromUnicodeObject_def transform_Cons_ascii PyLong_FromString_def
      Py_ISSPACE_def PyLong_DigitValue_def)


section \<open>What the pattern matches\<close>

lemma first_match_all_None: "(\<And>r. r \<in> set rs \<Longrightarrow> r = None) \<Longrightarrow> first_match rs = None"
  by (induction rs rule: first_match.induct) auto

text \<open>Inside the run of digits the end of the string is not reached.\<close>

lemma drop_in_run:
  assumes "k < length (takeWhile Py_UNICODE_ISDECIMAL rest)"
  shows "drop k rest \<noteq> [] \<and> drop k rest \<noteq> [10]"
proof -
  let ?n = "length (takeWhile Py_UNICODE_ISDECIMAL rest)"
  have "?n \<le> length rest" by (rule length_takeWhile_le)
  with assms have k: "k < length rest" by simp
  have "takeWhile Py_UNICODE_ISDECIMAL rest ! k \<in> set (takeWhile Py_UNICODE_ISDECIMAL rest)"
    using assms by simp
  then have "Py_UNICODE_ISDECIMAL (takeWhile Py_UNICODE_ISDECIMAL rest ! k)"
    by (rule set_takeWhileD [THEN conjunct2])
  then have dec: "Py_UNICODE_ISDECIMAL (rest ! k)"
    using assms by (simp add: takeWhile_nth)
  from k have "drop k rest = rest ! k # drop (Suc k) rest"
    by (simp add: Cons_nth_drop_Suc)
  with dec not_decimal_newline show ?thesis by auto
qed

lemma repeat_then_end:
  "first_match
     (map (\<lambda>k. sre_match [AT_END] (pos + k) (drop k rest) (PyStr (take k rest)))
          (rev [1 ..< Suc (length (takeWhile Py_UNICODE_ISDECIMAL rest))]))
   = (if takeWhile Py_UNICODE_ISDECIMAL rest \<noteq> []
         \<and> (dropWhile Py_UNICODE_ISDECIMAL rest = [] \<or> dropWhile Py_UNICODE_ISDECIMAL rest = [10])
      then Some (PyStr (takeWhile Py_UNICODE_ISDECIMAL rest)) else None)"
proof (cases "takeWhile Py_UNICODE_ISDECIMAL rest = []")
  case True
  then show ?thesis by simp
next
  case False
  let ?n = "length (takeWhile Py_UNICODE_ISDECIMAL rest)"
  let ?f = "\<lambda>k. sre_match [AT_END] (pos + k) (drop k rest) (PyStr (take k rest))"
  from False have n: "0 < ?n" by simp
  then have ks: "rev [1 ..< Suc ?n] = ?n # rev [1 ..< ?n]"
    by (simp add: Suc_le_eq)
  have below: "first_match (map ?f (rev [1 ..< ?n])) = None"
  proof (rule first_match_all_None)
    fix r assume "r \<in> set (map ?f (rev [1 ..< ?n]))"
    then obtain k where "k < ?n" and "r = ?f k" by auto
    with drop_in_run [of k rest] show "r = None" by simp
  qed
  have top: "?f ?n = (if dropWhile Py_UNICODE_ISDECIMAL rest = [] \<or> dropWhile Py_UNICODE_ISDECIMAL rest = [10]
      then Some (PyStr (takeWhile Py_UNICODE_ISDECIMAL rest)) else None)"
    by (simp add: dropWhile_eq_drop [symmetric] takeWhile_eq_take [symmetric])
  show ?thesis
    unfolding ks using False below top
    by (cases "?f ?n") (simp_all split: if_splits)
qed

lemma sre_match_repeat_end:
  "sre_match [SUBPATTERN_MAX_REPEAT_DIGIT, AT_END] pos rest g
   = (if takeWhile Py_UNICODE_ISDECIMAL rest \<noteq> []
         \<and> (dropWhile Py_UNICODE_ISDECIMAL rest = [] \<or> dropWhile Py_UNICODE_ISDECIMAL rest = [10])
      then Some (PyStr (takeWhile Py_UNICODE_ISDECIMAL rest)) else None)"
  unfolding sre_match.simps(5) by (rule repeat_then_end)

text \<open>What the pattern matches, as a function of the string.\<close>

lemma sre_match_age_pattern:
  "sre_match age_pattern 0 s PyNone =
     (case s of
        a # g # e # m # rest \<Rightarrow>
          if a = 97 \<and> g = 103 \<and> e = 101 \<and> m = 45
             \<and> takeWhile Py_UNICODE_ISDECIMAL rest \<noteq> []
             \<and> (dropWhile Py_UNICODE_ISDECIMAL rest = [] \<or> dropWhile Py_UNICODE_ISDECIMAL rest = [10])
          then Some (PyStr (takeWhile Py_UNICODE_ISDECIMAL rest)) else None
      | _ \<Rightarrow> None)"
  unfolding age_pattern_def
  by (simp add: sre_match_repeat_end split: list.splits del: sre_match.simps(5))

lemma sre_match_age_digits:
  assumes "list_all Py_UNICODE_ISDECIMAL ds" and "ds \<noteq> []" and "rear = [] \<or> rear = [10]"
  shows "sre_match age_pattern 0 (of_ascii ''age-'' @ ds @ rear) PyNone = Some (PyStr ds)"
proof -
  have tw: "takeWhile Py_UNICODE_ISDECIMAL (ds @ rear) = ds"
    using assms not_decimal_newline by (auto simp: list_all_iff takeWhile_append2)  
  have dw: "dropWhile Py_UNICODE_ISDECIMAL (ds @ rear) = rear"
    using assms not_decimal_newline by (auto simp: list_all_iff dropWhile_append2)
  show ?thesis
    using assms(2,3)
    by (simp add: sre_match_age_pattern of_ascii_def tw dw del: dropWhile_eq_Nil_conv)
qed

lemma sre_match_age_inv:
  assumes "sre_match age_pattern 0 s PyNone = Some g"
  shows "\<exists>ds rear. s = of_ascii ''age-'' @ ds @ rear \<and> ds \<noteq> [] \<and> list_all Py_UNICODE_ISDECIMAL ds
           \<and> (rear = [] \<or> rear = [10]) \<and> g = PyStr ds"
proof -
  from assms obtain rest where s: "s = 97 # 103 # 101 # 45 # rest"
    and ne: "takeWhile Py_UNICODE_ISDECIMAL rest \<noteq> []"
    and rear: "dropWhile Py_UNICODE_ISDECIMAL rest = [] \<or> dropWhile Py_UNICODE_ISDECIMAL rest = [10]"
    and g: "g = PyStr (takeWhile Py_UNICODE_ISDECIMAL rest)"
    by (auto simp: sre_match_age_pattern split: list.splits if_splits)
  have "s = of_ascii ''age-'' @ takeWhile Py_UNICODE_ISDECIMAL rest @ dropWhile Py_UNICODE_ISDECIMAL rest"
    by (simp add: s of_ascii_def)
  moreover have "list_all Py_UNICODE_ISDECIMAL (takeWhile Py_UNICODE_ISDECIMAL rest)"
    by (auto simp: list_all_iff dest: set_takeWhileD)
  ultimately show ?thesis using ne rear g by blast
qed


section \<open>The sign of a parsed integer\<close>

lemma scan_numeric_nonneg:
  "scan_numeric prev z cs = Some (r, rest) \<Longrightarrow> 0 \<le> z \<Longrightarrow> 0 \<le> r"
  by (induction prev z cs rule: scan_numeric.induct) (auto split: if_splits)

lemma FromString_negative:
  assumes "PyLong_FromString buffer = Some (n, e)" and "n < 0"
  shows "case dropWhile Py_ISSPACE buffer of [] \<Rightarrow> False | c # _ \<Rightarrow> c = 45"
proof (cases "dropWhile Py_ISSPACE buffer")
  case Nil
  with assms show ?thesis by (simp add: PyLong_FromString_def)
next
  case (Cons c cs)
  show ?thesis
  proof (rule ccontr)
    assume "\<not> ?thesis"
    with Cons have c: "c \<noteq> 45" by simp
    let ?str = "if c = 43 then cs else c # cs"
    from assms(1) Cons c obtain z rest where "scan_numeric 0 0 ?str = Some (z, rest)" and "n = z"
      by (auto simp: PyLong_FromString_def Let_def split: list.splits if_splits option.splits
          simp del: scan_numeric.simps)
    with scan_numeric_nonneg [of 0 0 ?str z rest] assms(2) show False by simp
  qed
qed

lemma transform_loop_minus:
  "(case dropWhile Py_ISSPACE (transform_loop s) of [] \<Rightarrow> False | c # _ \<Rightarrow> c = 45)
   \<Longrightarrow> leading_minus s"
proof (induction s)
  case Nil
  then show ?case by simp
next
  case (Cons ch rest)
  show ?case
  proof (cases "ch < 127")
    case True
    with Cons show ?thesis
      by (cases "Py_ISSPACE ch") (simp_all add: leading_minus_def int_blank_def)
  next
    case False
    show ?thesis
    proof (cases "Py_UNICODE_ISSPACE ch")
      case True
      with False Cons show ?thesis
        by (simp add: leading_minus_def int_blank_def Py_ISSPACE_def)
    next
      case space: False
      with False Cons.prems show ?thesis
        by (simp add: Py_ISSPACE_def split: option.splits)
    qed
  qed
qed

lemma ascii_blank: "ch < 128 \<Longrightarrow> int_blank ch = Py_ISSPACE ch"
  by (auto simp: int_blank_def Py_ISSPACE_def Py_UNICODE_ISSPACE_def)

lemma transform_minus:
  assumes "case dropWhile Py_ISSPACE (TransformDecimalAndSpaceToASCII s) of
             [] \<Rightarrow> False | c # _ \<Rightarrow> c = 45"
  shows "leading_minus s"
proof (cases "PyUnicode_IS_ASCII s")
  case True
  then have "dropWhile int_blank s = dropWhile Py_ISSPACE s"
    by (intro dropWhile_cong) (simp_all add: PyUnicode_IS_ASCII_def list_all_iff ascii_blank)
  with True assms show ?thesis
    by (simp add: leading_minus_def TransformDecimalAndSpaceToASCII_def)
next
  case False
  with assms show ?thesis
    by (simp add: TransformDecimalAndSpaceToASCII_def transform_loop_minus)
qed

lemma int_negative:
  assumes "PyLong_FromUnicodeObject s = Inr n" and "n < 0"
  shows "leading_minus s"
proof -
  from assms(1) have "PyLong_FromString (TransformDecimalAndSpaceToASCII s) = Some (n, [])"
    by (auto simp: PyLong_FromUnicodeObject_def split: option.splits if_splits)
  from FromString_negative [OF this assms(2)] show ?thesis by (rule transform_minus)
qed

lemma int_digits_nonneg: "0 \<le> digits_to_int ds"
proof -
  have "0 \<le> z \<Longrightarrow> 0 \<le> foldl (\<lambda>z d. 10 * z + int (digit_value d)) z ds" for z
    by (induction ds arbitrary: z) simp_all
  then show ?thesis by (simp add: digits_to_int_def)
qed

lemma int_only_ValueError: "PyLong_FromUnicodeObject s = Inl e \<Longrightarrow> e = ValueError"
  by (auto simp: PyLong_FromUnicodeObject_def split: option.splits if_splits)


section \<open>The control flow of \<^verbatim>\<open>getNumericVal\<close> on a string\<close>

lemmas eval_defs =
  getNumericVal_def deriveGender_def of_ascii_def PyLong_FromUnicodeObject_def
  TransformDecimalAndSpaceToASCII_def PyUnicode_IS_ASCII_def PyLong_FromString_def
  Py_ISSPACE_def PyLong_DigitValue_def age_pattern_def Py_UNICODE_ISDECIMAL_def
  Py_UNICODE_TODECIMAL_def decimal_zeros_def Py_UNICODE_ISSPACE_def
  digits_to_int_def digit_value_def leading_minus_def int_blank_def gender_tokens_def

lemma deriveGender_tokens: "deriveGender col \<in> gender_tokens"
  by (simp add: deriveGender_def gender_tokens_def)

lemma getNumericVal_str_cases:
  "getNumericVal (PyStr s) =
     (case PyLong_FromUnicodeObject s of
        Inr n \<Rightarrow> Inr (Some n)
      | Inl e \<Rightarrow>
          (case sre_match age_pattern 0 s PyNone of
             None \<Rightarrow> Inr None
           | Some group1 \<Rightarrow>
               (case py_int group1 of
                  Inr n \<Rightarrow> Inr (Some n)
                | Inl e' \<Rightarrow> if e' = ValueError then Inr None else Inl e')))"
  by (auto simp: getNumericVal_def split: sum.splits option.splits dest: int_only_ValueError)

lemma getNumericVal_age_digits:
  assumes "list_all Py_UNICODE_ISDECIMAL ds" and "ds \<noteq> []" and "rear = [] \<or> rear = [10]"
  shows "getNumericVal (PyStr (of_ascii ''age-'' @ ds @ rear)) = Inr (Some (digits_to_int ds))"
proof -
  have "PyLong_FromUnicodeObject (of_ascii ''age-'' @ ds @ rear) = Inl ValueError"
    by (simp add: of_ascii_def int_letter_a)
  moreover note sre_match_age_digits [OF assms] int_digits [OF assms(1,2)]
  ultimately show ?thesis by (simp add: getNumericVal_str_cases)
qed

lemma getNumericVal_returns: "\<exists>r. getNumericVal (PyStr s) = Inr r"
proof (cases "PyLong_FromUnicodeObject s")
  case (Inr n)
  then show ?thesis by (simp add: getNumericVal_str_cases)
next
  case (Inl e)
  show ?thesis
  proof (cases "sre_match age_pattern 0 s PyNone")
    case None
    with Inl show ?thesis by (simp add: getNumericVal_str_cases)
  next
    case (Some g)
    then obtain ds where "g = PyStr ds" using sre_match_age_inv by blast
    with Inl Some show ?thesis
      by (auto simp: getNumericVal_str_cases split: sum.splits dest: int_only_ValueError)
  qed
qed

lemma getNumericVal_sign:
  assumes "getNumericVal (PyStr s) = Inr (Some n)" and "n < 0"
  shows "leading_minus s"
proof (cases "PyLong_FromUnicodeObject s")
  case (Inr m)
  with assms show ?thesis by (auto simp: getNumericVal_str_cases intro: int_negative)
next
  case (Inl e)
  with assms(1) obtain g where m: "sre_match age_pattern 0 s PyNone = Some g"
    and g: "py_int g = Inr n"
    by (auto simp: getNumericVal_str_cases split: option.splits sum.splits if_splits)
  from sre_match_age_inv [OF m] obtain ds where "g = PyStr ds" "ds \<noteq> []"
    "list_all Py_UNICODE_ISDECIMAL ds" by blast
  with g have "n = digits_to_int ds" by (simp add: int_digits)
  with assms(2) int_digits_nonneg [of ds] show ?thesis by simp
qed


section \<open>The normalized values\<close>

text \<open>
  Claim C1. For every input string, the result of \<^verbatim>\<open>getNumericVal\<close> is an integer
  or \<^verbatim>\<open>None\<close>, and the result of \<^verbatim>\<open>deriveGender\<close> is one of the three strings
  male, female and unknown. The integer is not always non-negative: the direct parse
  accepts a minus sign. What holds is that the integer is negative only when the
  string begins, after the blanks that \<^verbatim>\<open>int\<close> skips, with a minus sign; an
  integer taken from the pattern \<^verbatim>\<open>age-<digits>\<close> is therefore never negative.
\<close>

theorem normalized_values:
  "(getNumericVal (PyStr s) = Inr None
      \<or> (\<exists>n. getNumericVal (PyStr s) = Inr (Some n) \<and> (n < 0 \<longrightarrow> leading_minus s)))
   \<and> deriveGender col \<in> gender_tokens"
proof -
  obtain r where r: "getNumericVal (PyStr s) = Inr r" using getNumericVal_returns by blast
  show ?thesis
  proof (cases r)
    case None
    with r show ?thesis by (simp add: deriveGender_tokens)
  next
    case (Some n)
    with r getNumericVal_sign [of s n] show ?thesis by (simp add: deriveGender_tokens)
  qed
qed

theorem normalized_values_witness:
  "getNumericVal (PyStr (of_ascii ''-12'')) = Inr (Some (- 12))
   \<and> leading_minus (of_ascii ''-12'')
   \<and> deriveGender (PyStr (of_ascii ''Mrs.'')) \<in> gender_tokens"
  using normalized_values [of "of_ascii ''-12''" "PyStr (of_ascii ''Mrs.'')"]
  by (simp add: eval_defs)

text \<open>The string \<^verbatim>\<open>"-5"\<close> is normalized to the negative integer -5.\<close>

theorem getNumericVal_negative_counterexample:
  "getNumericVal (PyStr (of_ascii ''-5'')) = Inr (Some (- 5))"
  by (simp add: eval_defs)


section \<open>The fall through to \<^verbatim>\<open>None\<close>\<close>

text \<open>
  Claim C2. On every string \<^verbatim>\<open>getNumericVal\<close> returns \<^verbatim>\<open>None\<close>, with no
  exception raised, exactly when \<^verbatim>\<open>int\<close> does not parse the string and the
  pattern does not match it. The empty string, \<^verbatim>\<open>"thirty"\<close>, \<^verbatim>\<open>"4 5"\<close> and
  \<^verbatim>\<open>"age-33 "\<close> are such strings. A blank in the string is not enough to fall
  through: \<^verbatim>\<open>" 45 "\<close> is parsed by \<^verbatim>\<open>int\<close> and gives 45.
\<close>

theorem getNumericVal_fallthrough:
  "(getNumericVal (PyStr s) = Inr None
      \<longleftrightarrow> (\<forall>n. py_int (PyStr s) \<noteq> Inr n) \<and> re_match age_pattern (PyStr s) = Inr None)
   \<and> getNumericVal (PyStr (of_ascii '''')) = Inr None
   \<and> getNumericVal (PyStr (of_ascii ''thirty'')) = Inr None
   \<and> getNumericVal (PyStr (of_ascii ''4 5'')) = Inr None
   \<and> getNumericVal (PyStr (of_ascii ''age-33 '')) = Inr None
   \<and> getNumericVal (PyStr (of_ascii '' 45 '')) = Inr (Some 45)"
proof -
  have falls: "getNumericVal (PyStr s) = Inr None"
    if "\<forall>n. py_int (PyStr s) \<noteq> Inr n" and "re_match age_pattern (PyStr s) = Inr None"
    using that by (auto simp: getNumericVal_str_cases split: sum.splits)
  have only: "(\<forall>n. py_int (PyStr s) \<noteq> Inr n) \<and> re_match age_pattern (PyStr s) = Inr None"
    if none: "getNumericVal (PyStr s) = Inr None"
  proof (cases "PyLong_FromUnicodeObject s")
    case (Inr m)
    with none show ?thesis by (simp add: getNumericVal_str_cases)
  next
    case (Inl e)
    show ?thesis
    proof (cases "sre_match age_pattern 0 s PyNone")
      case None
      with Inl show ?thesis by simp
    next
      case (Some g)
      from sre_match_age_inv [OF this] obtain ds where "g = PyStr ds" "ds \<noteq> []"
        "list_all Py_UNICODE_ISDECIMAL ds" by blast
      then have "py_int g = Inr (digits_to_int ds)" by (simp add: int_digits)
      with Inl Some none show ?thesis by (simp add: getNumericVal_str_cases)
    qed
  qed
  have "getNumericVal (PyStr (of_ascii '''')) = Inr None"
    by (simp add: eval_defs)
  moreover have "getNumericVal (PyStr (of_ascii ''thirty'')) = Inr None"
    by (simp add: eval_defs)
  moreover have "getNumericVal (PyStr (of_ascii ''4 5'')) = Inr None"
    by (simp add: eval_defs)
  moreover have "getNumericVal (PyStr (of_ascii ''age-33 '')) = Inr None"
    by (simp add: eval_defs)
  moreover have "getNumericVal (PyStr (of_ascii '' 45 '')) = Inr (Some 45)"
    by (simp add: eval_defs)
  ultimately show ?thesis using falls only by blast
qed

theorem getNumericVal_fallthrough_witness:
  "(\<forall>n. py_int (PyStr (of_ascii ''4.5'')) \<noteq> Inr n)
   \<and> re_match age_pattern (PyStr (of_ascii ''4.5'')) = Inr None
   \<and> getNumericVal (PyStr (of_ascii ''4.5'')) = Inr None"
proof -
  have a: "py_int (PyStr (of_ascii ''4.5'')) = Inl ValueError" by (simp add: eval_defs)
  have b: "re_match age_pattern (PyStr (of_ascii ''4.5'')) = Inr None" by (simp add: eval_defs)
  from a have c: "\<forall>n. py_int (PyStr (of_ascii ''4.5'')) \<noteq> Inr n" by simp
  from getNumericVal_fallthrough [of "of_ascii ''4.5''"] b c show ?thesis by blast
qed

text \<open>The string \<^verbatim>\<open>" 45 "\<close>, an integer with blanks around it, is normalized to 45.\<close>

theorem getNumericVal_whitespace_counterexample:
  "getNumericVal (PyStr (of_ascii '' 45 '')) = Inr (Some 45)"
  by (simp add: eval_defs)


section \<open>Totality\<close>

text \<open>
  Claim C3. On every string both functions return: \<^verbatim>\<open>getNumericVal\<close> returns an
  integer or \<^verbatim>\<open>None\<close> and no exception leaves it, and \<^verbatim>\<open>deriveGender\<close> returns
  one of male, female and unknown. Both models are total functions defined by
  terminating recursion, and an escaping exception would be the value \<open>Inl e\<close>.
\<close>

theorem normalizers_total:
  "(\<exists>r. getNumericVal (PyStr s) = Inr r) \<and> deriveGender (PyStr t) \<in> gender_tokens"
  by (simp add: getNumericVal_returns deriveGender_tokens)


section \<open>The direct parse\<close>

text \<open>
  Claim C4. When \<^verbatim>\<open>int\<close> parses the string, \<^verbatim>\<open>getNumericVal\<close> returns the
  integer it gives; a non-empty string of decimal digits is parsed to the number it
  denotes; and \<^verbatim>\<open>"45"\<close> gives 45.
\<close>

theorem getNumericVal_direct_parse:
  "(py_int (PyStr s) = Inr n \<longrightarrow> getNumericVal (PyStr s) = Inr (Some n))
   \<and> (list_all Py_UNICODE_ISDECIMAL ds \<and> ds \<noteq> []
        \<longrightarrow> getNumericVal (PyStr ds) = Inr (Some (digits_to_int ds)))
   \<and> getNumericVal (PyStr (of_ascii ''45'')) = Inr (Some 45)"
proof -
  have "getNumericVal (PyStr (of_ascii ''45'')) = Inr (Some 45)"
    by (simp add: eval_defs)
  then show ?thesis
    by (simp add: getNumericVal_str_cases int_digits)
qed

theorem getNumericVal_direct_parse_witness:
  "py_int (PyStr (of_ascii ''007'')) = Inr 7
   \<and> list_all Py_UNICODE_ISDECIMAL (of_ascii ''007'') \<and> of_ascii ''007'' \<noteq> []
   \<and> digits_to_int (of_ascii ''007'') = 7
   \<and> getNumericVal (PyStr (of_ascii ''007'')) = Inr (Some 7)"
proof -
  have a: "py_int (PyStr (of_ascii ''007'')) = Inr 7" by (simp add: eval_defs)
  have b: "list_all Py_UNICODE_ISDECIMAL (of_ascii ''007'')" by (simp add: eval_defs)
  have c: "digits_to_int (of_ascii ''007'') = 7" by (simp add: eval_defs)
  from getNumericVal_direct_parse [of "of_ascii ''007''" 7 "of_ascii ''007''"] a b c
  show ?thesis by (simp add: of_ascii_def)
qed


section \<open>The pattern \<^verbatim>\<open>age-<digits>\<close>\<close>

text \<open>
  Claim C5. A string made of the prefix \<^verbatim>\<open>age-\<close> and one or more decimal digits,
  with nothing else, is not parsed by \<^verbatim>\<open>int\<close>, and \<^verbatim>\<open>getNumericVal\<close> returns the
  number that the digits denote; \<^verbatim>\<open>"age-33"\<close> gives 33. The prefix is
  case-sensitive: \<^verbatim>\<open>"Age-33"\<close> gives \<^verbatim>\<open>None\<close>.
\<close>

theorem getNumericVal_age_pattern:
  "(list_all Py_UNICODE_ISDECIMAL ds \<and> ds \<noteq> []
      \<longrightarrow> py_int (PyStr (of_ascii ''age-'' @ ds)) = Inl ValueError
          \<and> getNumericVal (PyStr (of_ascii ''age-'' @ ds)) = Inr (Some (digits_to_int ds)))
   \<and> getNumericVal (PyStr (of_ascii ''age-33'')) = Inr (Some 33)
   \<and> getNumericVal (PyStr (of_ascii ''Age-33'')) = Inr None"
proof -
  have "getNumericVal (PyStr (of_ascii ''age-'' @ ds)) = Inr (Some (digits_to_int ds))"
    if "list_all Py_UNICODE_ISDECIMAL ds" and "ds \<noteq> []"
    using getNumericVal_age_digits [of ds "[]"] that by simp
  moreover have "py_int (PyStr (of_ascii ''age-'' @ ds)) = Inl ValueError"
    by (simp add: of_ascii_def int_letter_a)
  moreover have "getNumericVal (PyStr (of_ascii ''age-33'')) = Inr (Some 33)"
    by (simp add: eval_defs)
  moreover have "getNumericVal (PyStr (of_ascii ''Age-33'')) = Inr None"
    by (simp add: eval_defs)
  ultimately show ?thesis by blast
qed

theorem getNumericVal_age_pattern_witness:
  "list_all Py_UNICODE_ISDECIMAL (of_ascii ''61'') \<and> of_ascii ''61'' \<noteq> []
   \<and> digits_to_int (of_ascii ''61'') = 61
   \<and> getNumericVal (PyStr (of_ascii ''age-'' @ of_ascii ''61'')) = Inr (Some 61)"
proof -
  have a: "list_all Py_UNICODE_ISDECIMAL (of_ascii ''61'')" by (simp add: eval_defs)
  have b: "of_ascii ''61'' \<noteq> []" by (simp add: of_ascii_def)
  have c: "digits_to_int (of_ascii ''61'') = 61" by (simp add: eval_defs)
  from getNumericVal_age_pattern [of "of_ascii ''61''"] a b c show ?thesis by simp
qed


section \<open>The lookup of \<^verbatim>\<open>deriveGender\<close>\<close>

text \<open>
  Claim C6. \<^verbatim>\<open>deriveGender\<close> compares its argument with four literal strings:
  \<^verbatim>\<open>"Mr."\<close> and \<^verbatim>\<open>"Master."\<close> give male, \<^verbatim>\<open>"Mrs."\<close> and \<^verbatim>\<open>"Miss."\<close> give
  female, and every other value gives unknown, among them the empty string,
  \<^verbatim>\<open>"Dr."\<close>, variants in case or punctuation of the four strings, and
  \<^verbatim>\<open>None\<close>.
\<close>

theorem deriveGender_lookup:
  "(col = PyStr (of_ascii ''Mr.'') \<or> col = PyStr (of_ascii ''Master.'')
      \<longrightarrow> deriveGender col = of_ascii ''male'')
   \<and> (col = PyStr (of_ascii ''Mrs.'') \<or> col = PyStr (of_ascii ''Miss.'')
      \<longrightarrow> deriveGender col = of_ascii ''female'')
   \<and> (col \<noteq> PyStr (of_ascii ''Mr.'') \<and> col \<noteq> PyStr (of_ascii ''Master.'')
      \<and> col \<noteq> PyStr (of_ascii ''Mrs.'') \<and> col \<noteq> PyStr (of_ascii ''Miss.'')
      \<longrightarrow> deriveGender col = of_ascii ''unknown'')
   \<and> deriveGender (PyStr (of_ascii '''')) = of_ascii ''unknown''
   \<and> deriveGender (PyStr (of_ascii ''Dr.'')) = of_ascii ''unknown''
   \<and> deriveGender (PyStr (of_ascii ''mr.'')) = of_ascii ''unknown''
   \<and> deriveGender (PyStr (of_ascii ''MRS.'')) = of_ascii ''unknown''
   \<and> deriveGender (PyStr (of_ascii ''Mr'')) = of_ascii ''unknown''
   \<and> deriveGender (PyStr (of_ascii ''Miss'')) = of_ascii ''unknown''
   \<and> deriveGender (PyStr (of_ascii '' Mr.'')) = of_ascii ''unknown''
   \<and> deriveGender PyNone = of_ascii ''unknown''"
  by (simp add: deriveGender_def of_ascii_def)

theorem deriveGender_lookup_witness:
  "deriveGender (PyStr (of_ascii ''Master.'')) = of_ascii ''male''
   \<and> deriveGender (PyStr (of_ascii ''Miss.'')) = of_ascii ''female''
   \<and> deriveGender (PyStr (of_ascii ''Madam'')) = of_ascii ''unknown''"
  using deriveGender_lookup [of "PyStr (of_ascii ''Master.'')"]
    deriveGender_lookup [of "PyStr (of_ascii ''Miss.'')"]
    deriveGender_lookup [of "PyStr (of_ascii ''Madam'')"]
  by (simp add: of_ascii_def)


section \<open>\<^verbatim>\<open>deriveGender\<close> applied again\<close>

text \<open>
  Claim C7. Applied to one of its own three results, \<^verbatim>\<open>deriveGender\<close> returns
  unknown; so \<^verbatim>\<open>deriveGender\<close> applied to its own result returns unknown for
  every argument.
\<close>

theorem deriveGender_reapplied:
  "(t \<in> gender_tokens \<longrightarrow> deriveGender (PyStr t) = of_ascii ''unknown'')
   \<and> deriveGender (PyStr (deriveGender col)) = of_ascii ''unknown''"
proof -
  have tok: "deriveGender (PyStr t) = of_ascii ''unknown''" if "t \<in> gender_tokens" for t
    using that by (auto simp: gender_tokens_def deriveGender_def of_ascii_def)
  from tok [OF deriveGender_tokens] tok show ?thesis by simp
qed

theorem deriveGender_reapplied_witness:
  "of_ascii ''female'' \<in> gender_tokens
   \<and> deriveGender (PyStr (of_ascii ''female'')) = of_ascii ''unknown''
   \<and> deriveGender (PyStr (deriveGender (PyStr (of_ascii ''Mr.'')))) = of_ascii ''unknown''"
  using deriveGender_reapplied [of "of_ascii ''female''" "PyStr (of_ascii ''Mr.'')"]
  by (simp add: gender_tokens_def)


section \<open>A line feed after the digits\<close>

text \<open>
  Claim C8. A string made of the prefix \<^verbatim>\<open>age-\<close>, one or more decimal digits and
  one line feed at the end is matched by the pattern, since \<^verbatim>\<open>$\<close> also matches
  just before a line feed that ends the string: \<^verbatim>\<open>getNumericVal\<close> returns the
  number that the digits denote, not \<^verbatim>\<open>None\<close>.
\<close>

theorem getNumericVal_trailing_newline:
  "(list_all Py_UNICODE_ISDECIMAL ds \<and> ds \<noteq> []
      \<longrightarrow> getNumericVal (PyStr (of_ascii ''age-'' @ ds @ [10])) = Inr (Some (digits_to_int ds)))
   \<and> getNumericVal (PyStr (of_ascii ''age-33'' @ [10])) = Inr (Some 33)"
proof -
  have "getNumericVal (PyStr (of_ascii ''age-'' @ ds @ [10])) = Inr (Some (digits_to_int ds))"
    if "list_all Py_UNICODE_ISDECIMAL ds" and "ds \<noteq> []"
    using getNumericVal_age_digits [of ds "[10]"] that by simp
  moreover have "getNumericVal (PyStr (of_ascii ''age-33'' @ [10])) = Inr (Some 33)"
    by (simp add: eval_defs)
  ultimately show ?thesis by blast
qed

theorem getNumericVal_trailing_newline_witness:
  "list_all Py_UNICODE_ISDECIMAL (of_ascii ''208'') \<and> of_ascii ''208'' \<noteq> []
   \<and> digits_to_int (of_ascii ''208'') = 208
   \<and> getNumericVal (PyStr (of_ascii ''age-'' @ of_ascii ''208'' @ [10])) = Inr (Some 208)"
proof -
  have a: "list_all Py_UNICODE_ISDECIMAL (of_ascii ''208'')" by (simp add: eval_defs)
  have b: "of_ascii ''208'' \<noteq> []" by (simp add: of_ascii_def)
  have c: "digits_to_int (of_ascii ''208'') = 208" by (simp add: eval_defs)
  from getNumericVal_trailing_newline [of "of_ascii ''208''"] a b c show ?thesis by simp
qed


section \<open>The inner handler\<close>

text \<open>
  Claim C9. Whenever the pattern matches, \<^verbatim>\<open>int\<close> parses group 1 of the match:
  the inner handler of \<^verbatim>\<open>ValueError\<close>, with its \<^verbatim>\<open>return None\<close>, is never entered.
\<close>

theorem inner_handler_unreachable:
  "re_match age_pattern col = Inr (Some group1) \<Longrightarrow> \<exists>n. py_int group1 = Inr n"
proof -
  assume m: "re_match age_pattern col = Inr (Some group1)"
  then obtain s where "col = PyStr s" by (cases col) simp_all
  with m have "sre_match age_pattern 0 s PyNone = Some group1" by simp
  from sre_match_age_inv [OF this] obtain ds where "group1 = PyStr ds" "ds \<noteq> []"
    "list_all Py_UNICODE_ISDECIMAL ds" by blast
  then show ?thesis by (simp add: int_digits)
qed

theorem inner_handler_unreachable_witness:
  "re_match age_pattern (PyStr (of_ascii ''age-33'')) = Inr (Some (PyStr (of_ascii ''33'')))
   \<and> (\<exists>n. py_int (PyStr (of_ascii ''33'')) = Inr n)"
proof -
  have a: "re_match age_pattern (PyStr (of_ascii ''age-33'')) = Inr (Some (PyStr (of_ascii ''33'')))"
    by (simp add: eval_defs)
  from inner_handler_unreachable [OF a] a show ?thesis by blast
qed


section \<open>A plus sign before the digits\<close>

text \<open>
  Claim C10. A string made of a plus sign and one or more decimal digits is parsed
  by \<^verbatim>\<open>int\<close>: \<^verbatim>\<open>getNumericVal\<close> returns the number that the digits denote, not
  \<^verbatim>\<open>None\<close>; \<^verbatim>\<open>"+45"\<close> gives 45.
\<close>

theorem getNumericVal_plus_sign:
  "(list_all Py_UNICODE_ISDECIMAL ds \<and> ds \<noteq> []
      \<longrightarrow> getNumericVal (PyStr (of_ascii ''+'' @ ds)) = Inr (Some (digits_to_int ds)))
   \<and> getNumericVal (PyStr (of_ascii ''+45'')) = Inr (Some 45)"
proof -
  have "getNumericVal (PyStr (of_ascii ''+'' @ ds)) = Inr (Some (digits_to_int ds))"
    if "list_all Py_UNICODE_ISDECIMAL ds" and "ds \<noteq> []"
    using that by (simp add: getNumericVal_str_cases of_ascii_def int_plus_digits)
  moreover have "getNumericVal (PyStr (of_ascii ''+45'')) = Inr (Some 45)"
    by (simp add: eval_defs)
  ultimately show ?thesis by blast
qed

theorem getNumericVal_plus_sign_witness:
  "list_all Py_UNICODE_ISDECIMAL (of_ascii ''19'') \<and> of_ascii ''19'' \<noteq> []
   \<and> digits_to_int (of_ascii ''19'') = 19
   \<and> getNumericVal (PyStr (of_ascii ''+'' @ of_ascii ''19'')) = Inr (Some 19)"
proof -
  have a: "list_all Py_UNICODE_ISDECIMAL (of_ascii ''19'')" by (simp add: eval_defs)
  have b: "of_ascii ''19'' \<noteq> []" by (simp add: of_ascii_def)
  have c: "digits_to_int (of_ascii ''19'') = 19" by (simp add: eval_defs)
  from getNumericVal_plus_sign [of "of_ascii ''19''"] a b c show ?thesis by simp
qed

end
